theory Spec2Isabelle
  imports Complex_Main
begin

section \<open>Values exchanged with the client\<close>

text \<open>
  Request and response bodies are JSON. A Python \<^verbatim>\<open>dict\<close> is an association list in
  insertion order; \<^verbatim>\<open>None\<close> is \<open>JNull\<close>. Prices are floats that the service only
  stores and returns, never computes with; they are carried as \<open>real\<close>.
\<close>

datatype json =
    JNull
  | JInt int
  | JNum real
  | JStr string
  | JList "json list"
  | JObj "(string \<times> json) list"

text \<open>
  The exceptions that can arise below a handler. \<open>IntegrityError\<close> and \<open>DataError\<close> are the
  ORM's wrappers of what the database rejects; the violated constraint is kept as a tag.
\<close>

datatype violation = NotNull | PrimaryKey | Unique | ForeignKey

datatype exn =
    KeyError string
  | AttributeError
  | ValueError
  | IntegrityError violation
  | DataError

text \<open>
  What a handler hands back to the framework with \<^verbatim>\<open>return\<close>: a
  \<^verbatim>\<open>Response(body=...)\<close>, or (in the \<^verbatim>\<open>except KeyError as e: return e\<close> branch) the
  exception object itself. An exception that escapes the handler is the \<open>Inl\<close> of the
  handler's result instead.
\<close>

datatype returned = Response json | Exc exn

fun body_keys :: "returned \<Rightarrow> string list" where
  "body_keys (Response (JObj kvs)) = map fst kvs"
| "body_keys _ = []"

fun body_get :: "string \<Rightarrow> returned \<Rightarrow> json option" where
  "body_get k (Response (JObj kvs)) = map_of kvs k"
| "body_get k _ = None"

section \<open>Tables (lines 24-39)\<close>

record unit_measure =
  um_id :: int
  um_name :: string

record product =
  p_id :: int
  p_name :: string
  p_price :: real
  p_unit_measure_id :: int

text \<open>
  The database: the two tables in storage order, and the next value of the sequence
  behind the serial primary key \<^verbatim>\<open>products.id\<close>.
\<close>

record db =
  unit_measures_table :: "unit_measure list"
  products_table :: "product list"
  products_id_seq :: int

text \<open>
  A \<^verbatim>\<open>Product\<close> instance in a session. Its attributes may still be \<^verbatim>\<open>None\<close>: the
  constructor and the attribute assignments take whatever \<^verbatim>\<open>json_body.get\<close> returns.
\<close>

record product_obj =
  o_id :: "int option"
  o_name :: "string option"
  o_price :: "real option"
  o_unit_measure_id :: "int option"

definition loaded :: "product \<Rightarrow> product_obj" where
  "loaded p = \<lparr>o_id = Some (p_id p), o_name = Some (p_name p), o_price = Some (p_price p),
     o_unit_measure_id = Some (p_unit_measure_id p)\<rparr>"

text \<open>
  The JSON body of POST and PUT, read with \<^verbatim>\<open>json_body.get(key)\<close>: \<open>None\<close> when the key is
  missing or null.
\<close>

record product_body =
  b_name :: "string option"
  b_price :: "real option"
  b_unit_measure_id :: "int option"

section \<open>Schemas (lines 42-52)\<close>

definition first :: "'a list \<Rightarrow> 'a option" where
  "first xs = (case xs of [] \<Rightarrow> None | x # _ \<Rightarrow> Some x)"

definition UnitMeasureSchema_dump :: "unit_measure \<Rightarrow> json" where
  "UnitMeasureSchema_dump u = JObj [(''id'', JInt (um_id u)), (''name'', JStr (um_name u))]"

text \<open>
  \<^verbatim>\<open>ProductSchema().dump(obj)\<close>. Reading \<^verbatim>\<open>obj.unit_measures\<close> loads the related row through
  the foreign key; a missing row or a \<^verbatim>\<open>None\<close> attribute is dumped as null.
\<close>

definition ProductSchema_dump :: "db \<Rightarrow> product_obj \<Rightarrow> json" where
  "ProductSchema_dump d obj = JObj
     [(''id'', (case o_id obj of None \<Rightarrow> JNull | Some i \<Rightarrow> JInt i)),
      (''name'', (case o_name obj of None \<Rightarrow> JNull | Some n \<Rightarrow> JStr n)),
      (''price'', (case o_price obj of None \<Rightarrow> JNull | Some x \<Rightarrow> JNum x)),
      (''unit_measure_id'', (case o_unit_measure_id obj of None \<Rightarrow> JNull | Some u \<Rightarrow> JInt u)),
      (''unit_measures'',
         (case o_unit_measure_id obj of
            None \<Rightarrow> JNull
          | Some u \<Rightarrow>
              (case first (filter (\<lambda>m. um_id m = u) (unit_measures_table d)) of
                 None \<Rightarrow> JNull
               | Some m \<Rightarrow> UnitMeasureSchema_dump m)))]"

section \<open>Messages (lines 58-66)\<close>

definition messages :: "(string \<times> string) list" where
  "messages =
     [(''RecordFound'', ''The {resource} has been found successfully''),
      (''RecordCreated'', ''The {resource} has been created successfully''),
      (''RecordUpdated'', ''The {resource} with id '{id}' has been updated successfully''),
      (''RecordDeleted'', ''The {resource} with id '{id}'has been deleted successfully''),
      (''RecordNotFound'', ''The {resource} with id '{id}' has not been found''),
      (''RecordAlreadyExists'', ''The {resource} already exists''),
      (''InternalError'', ''An error occurred during your request, please try again'')]"

text \<open>
  \<^verbatim>\<open>template.format(**kwargs)\<close> for templates whose only markup is \<^verbatim>\<open>{name}\<close>: each field is
  replaced by the keyword argument of that name, and a name without an argument raises
  \<^verbatim>\<open>KeyError\<close>.
\<close>

function format :: "string \<Rightarrow> (string \<times> string) list \<Rightarrow> exn + string" where
  "format [] kwargs = Inr []"
| "format (c # cs) kwargs =
     (if c = CHR ''{''
      then (let key = takeWhile (\<lambda>x. x \<noteq> CHR ''}'') cs;
                rest = drop 1 (dropWhile (\<lambda>x. x \<noteq> CHR ''}'') cs)
            in case map_of kwargs key of
                 None \<Rightarrow> Inl (KeyError key)
               | Some v \<Rightarrow> (case format rest kwargs of Inl e \<Rightarrow> Inl e | Inr s \<Rightarrow> Inr (v @ s)))
      else (case format cs kwargs of Inl e \<Rightarrow> Inl e | Inr s \<Rightarrow> Inr (c # s)))"
  by pat_completeness auto
termination
  by (relation "measure (\<lambda>(t, kwargs). length t)")
     (auto simp: le_imp_less_Suc length_dropWhile_le order.trans [OF diff_le_self])

text \<open>\<^verbatim>\<open>messages.get(key).format(**kwargs)\<close>: \<^verbatim>\<open>get\<close> gives \<^verbatim>\<open>None\<close> for an unknown key.\<close>

definition message :: "string \<Rightarrow> (string \<times> string) list \<Rightarrow> exn + string" where
  "message key kwargs =
     (case map_of messages key of None \<Rightarrow> Inl AttributeError | Some t \<Rightarrow> format t kwargs)"

text \<open>
  The path parameter \<^verbatim>\<open>id\<close> is taken as the integer it denotes; \<^verbatim>\<open>format\<close> writes it in
  decimal.
\<close>

fun str_nat :: "nat \<Rightarrow> string" where
  "str_nat n =
     (if n < 10 then [char_of (48 + n)] else str_nat (n div 10) @ [char_of (48 + n mod 10)])"

declare str_nat.simps [simp del]

definition str_int :: "int \<Rightarrow> string" where
  "str_int i = (if i < 0 then CHR ''-'' # str_nat (nat (- i)) else str_nat (nat i))"

section \<open>Response envelopes (lines 182-206)\<close>

text \<open>
  Keyword arguments with a default are options: \<open>None\<close> is an argument the caller leaves
  out.
\<close>

definition MakeResponse :: "string \<Rightarrow> json option \<Rightarrow> int option \<Rightarrow> json option \<Rightarrow> returned" where
  "MakeResponse msg data status_code error =
     (let code = (case status_code of None \<Rightarrow> 200 | Some c \<Rightarrow> c);
          status = (if code = 400 then ''BadRequest''
                    else if code = 500 then ''InternalServerError''
                    else ''OK'')
      in Response (JObj
           [(''status'', JStr status),
            (''code'', JInt code),
            (''message'', JStr msg),
            (''error'', (case error of None \<Rightarrow> JNull | Some e \<Rightarrow> e)),
            (''data'', (case data of None \<Rightarrow> JNull | Some v \<Rightarrow> v))]))"

definition MakeResponsePaginate :: "string \<Rightarrow> json \<Rightarrow> int \<Rightarrow> returned" where
  "MakeResponsePaginate msg data totalRecords =
     Response (JObj
       [(''status'', JStr ''OK''),
        (''code'', JInt 200),
        (''message'', JStr msg),
        (''error'', JNull),
        (''data'', data),
        (''total_records'', JInt totalRecords)])"

section \<open>The persistence layer as the handlers use it\<close>

text \<open>
  The engine is PostgreSQL (line 19). \<^verbatim>\<open>name LIKE pattern\<close>: \<^verbatim>\<open>%\<close> matches any run of
  characters, \<^verbatim>\<open>_\<close> any one character, a backslash takes the next character literally,
  anything else matches itself (case-sensitively). The patterns built below always end in
  \<^verbatim>\<open>%\<close>, so a pattern that ends in a lone backslash (an error in PostgreSQL) never reaches
  the database.
\<close>

fun like :: "string \<Rightarrow> string \<Rightarrow> bool" where
  "like [] s = (s = [])"
| "like (c # p) s =
     (if c = CHR ''%'' then
        (like p s \<or> (case s of [] \<Rightarrow> False | _ # s' \<Rightarrow> like (c # p) s'))
      else if c = CHR ''_'' then
        (case s of [] \<Rightarrow> False | _ # s' \<Rightarrow> like p s')
      else if c = CHR 0x5C then
        (case p of
           [] \<Rightarrow> False
         | e # p' \<Rightarrow> (case s of [] \<Rightarrow> False | x # s' \<Rightarrow> x = e \<and> like p' s'))
      else
        (case s of [] \<Rightarrow> False | x # s' \<Rightarrow> x = c \<and> like p s'))"

text \<open>\<^verbatim>\<open>session.query(Product).filter(Product.name.like(f"%{search}%"))\<close>\<close>

definition name_like :: "string \<Rightarrow> product list \<Rightarrow> product list" where
  "name_like search rows = filter (\<lambda>p. like (''%'' @ search @ ''%'') (p_name p)) rows"

text \<open>\<^verbatim>\<open>session.query(Product).where(Product.id == id)\<close>\<close>

definition where_id :: "int \<Rightarrow> product list \<Rightarrow> product list" where
  "where_id i rows = filter (\<lambda>p. p_id p = i) rows"

text \<open>
  Query parameters arrive as strings, the defaults of \<^verbatim>\<open>query_params.get\<close> are integers.
  \<^verbatim>\<open>Query.offset\<close> and \<^verbatim>\<open>Query.limit\<close> pass their argument through Python's \<^verbatim>\<open>int\<close>,
  modelled for an optional sign followed by ASCII digits; any other string raises
  \<^verbatim>\<open>ValueError\<close> here.
\<close>

datatype pyval = PyInt int | PyStr string

definition is_digit :: "char \<Rightarrow> bool" where
  "is_digit c = (48 \<le> (of_char c :: nat) \<and> (of_char c :: nat) \<le> 57)"

definition digits_value :: "string \<Rightarrow> nat" where
  "digits_value ds = foldl (\<lambda>a c. 10 * a + (of_char c - 48)) 0 ds"

definition int_of_str :: "string \<Rightarrow> exn + int" where
  "int_of_str s =
     (let (neg, ds) =
            (case s of
               [] \<Rightarrow> (False, [])
             | c # cs \<Rightarrow>
                 if c = CHR ''-'' then (True, cs)
                 else if c = CHR ''+'' then (False, cs)
                 else (False, s))
      in if ds = [] \<or> \<not> list_all is_digit ds then Inl ValueError
         else Inr (if neg then - int (digits_value ds) else int (digits_value ds)))"

fun asint :: "pyval \<Rightarrow> exn + int" where
  "asint (PyInt n) = Inr n"
| "asint (PyStr s) = int_of_str s"

text \<open>
  \<^verbatim>\<open>.offset(offset).limit(limit).all()\<close>: PostgreSQL rejects a negative OFFSET or LIMIT and
  one beyond its 64-bit integers; otherwise it skips \<open>ofs\<close> rows and returns at most \<open>lmt\<close>.
\<close>

definition bigint_max :: int where
  "bigint_max = 9223372036854775807"

definition offset_limit :: "int \<Rightarrow> int \<Rightarrow> 'a list \<Rightarrow> exn + 'a list" where
  "offset_limit ofs lmt rows =
     (if ofs < 0 \<or> lmt < 0 \<or> bigint_max < ofs \<or> bigint_max < lmt then Inl DataError
      else Inr (take (nat lmt) (drop (nat ofs) rows)))"

text \<open>
  INSERT of a session object into \<^verbatim>\<open>products\<close> at \<^verbatim>\<open>session.flush()\<close>. An object without an
  id takes the next value of the sequence. The column constraints of lines 34-37 are
  checked: NOT NULL, the primary key, the unique name, the foreign key. The result is the
  object as the session holds it afterwards, and the new state.
\<close>

definition sql_insert :: "db \<Rightarrow> product_obj \<Rightarrow> exn + (product_obj \<times> db)" where
  "sql_insert d obj =
     (let i = (case o_id obj of None \<Rightarrow> products_id_seq d | Some j \<Rightarrow> j);
          seq' = (case o_id obj of None \<Rightarrow> products_id_seq d + 1 | Some j \<Rightarrow> products_id_seq d)
      in case (o_name obj, o_price obj, o_unit_measure_id obj) of
           (Some n, Some x, Some u) \<Rightarrow>
             if i \<in> set (map p_id (products_table d)) then Inl (IntegrityError PrimaryKey)
             else if n \<in> set (map p_name (products_table d)) then Inl (IntegrityError Unique)
             else if u \<notin> set (map um_id (unit_measures_table d)) then Inl (IntegrityError ForeignKey)
             else Inr (obj\<lparr>o_id := Some i\<rparr>,
                       d\<lparr>products_table :=
                            products_table d @
                              [\<lparr>p_id = i, p_name = n, p_price = x, p_unit_measure_id = u\<rparr>],
                          products_id_seq := seq'\<rparr>)
         | _ \<Rightarrow> Inl (IntegrityError NotNull))"




text \<open>\<^verbatim>\<open>DELETE FROM products WHERE id = i\<close>; no table references \<^verbatim>\<open>products\<close>.\<close>

definition Query_delete :: "db \<Rightarrow> int \<Rightarrow> db" where
  "Query_delete d i = d\<lparr>products_table := filter (\<lambda>p. p_id p \<noteq> i) (products_table d)\<rparr>"

section \<open>Handlers (lines 69-179)\<close>

text \<open>
  Every handler body runs under \<^verbatim>\<open>try: ... except KeyError as e: return e\<close>: a
  \<^verbatim>\<open>KeyError\<close> becomes the returned value, every other exception escapes. \<open>h\<close> wraps the
  exception into the handler's result.
\<close>

definition except_KeyError :: "(exn \<Rightarrow> 'a) \<Rightarrow> exn + 'a \<Rightarrow> exn + 'a" where
  "except_KeyError h r =
     (case r of
        Inl e \<Rightarrow> (case e of KeyError k \<Rightarrow> Inr (h (KeyError k)) | _ \<Rightarrow> Inl e)
      | Inr v \<Rightarrow> Inr v)"

text \<open>
  The loop of \<^verbatim>\<open>indexProducts\<close> (lines 79-81) over the rows of the page: each row is
  dumped and appended, and in the same loop body \<^verbatim>\<open>totalRecords\<close> is set to the count of
  all matching rows.
\<close>

fun index_loop :: "db \<Rightarrow> string \<Rightarrow> product list \<Rightarrow> json list \<times> int \<Rightarrow> json list \<times> int" where
  "index_loop d search [] st = st"
| "index_loop d search (data # rest) (products, totalRecords) =
     index_loop d search rest
       (products @ [ProductSchema_dump d (loaded data)],
        int (length (name_like search (products_table d))))"

text \<open>
  GET /products. The framework's \<^verbatim>\<open>query_params\<close> is \<^verbatim>\<open>None\<close> for a request without a
  query string, and a dict of strings otherwise.
\<close>

definition indexProducts :: "db \<Rightarrow> (string \<rightharpoonup> string) option \<Rightarrow> exn + returned" where
  "indexProducts d query_params = except_KeyError Exc
     (case query_params of
        None \<Rightarrow> Inl AttributeError
      | Some q \<Rightarrow>
          (let offset = (case q ''offset'' of None \<Rightarrow> PyInt 0 | Some s \<Rightarrow> PyStr s);
               limit = (case q ''limit'' of None \<Rightarrow> PyInt 10 | Some s \<Rightarrow> PyStr s);
               search = (case q ''search'' of None \<Rightarrow> [] | Some s \<Rightarrow> s)
           in case asint offset of
                Inl e \<Rightarrow> Inl e
              | Inr ofs \<Rightarrow>
                  (case asint limit of
                     Inl e \<Rightarrow> Inl e
                   | Inr lmt \<Rightarrow>
                       (case offset_limit ofs lmt (name_like search (products_table d)) of
                          Inl e \<Rightarrow> Inl e
                        | Inr page \<Rightarrow>
                            (case index_loop d search page ([], 0) of
                               (products, totalRecords) \<Rightarrow>
                                 (case message ''RecordFound'' [(''resource'', ''products'')] of
                                    Inl e \<Rightarrow> Inl e
                                  | Inr m \<Rightarrow>
                                      Inr (MakeResponsePaginate m (JList products)
                                             totalRecords)))))))"

text \<open>GET /product/{id}\<close>

definition showProduct :: "db \<Rightarrow> int \<Rightarrow> exn + returned" where
  "showProduct d i = except_KeyError Exc
     (case first (where_id i (products_table d)) of
        None \<Rightarrow>
          (case message ''RecordNotFound'' [(''resource'', ''product''), (''id'', str_int i)] of
             Inl e \<Rightarrow> Inl e
           | Inr m \<Rightarrow> Inr (MakeResponse m None (Some 400) None))
      | Some data \<Rightarrow>
          (let product = ProductSchema_dump d (loaded data)
           in case message ''RecordFound'' [(''resource'', ''product'')] of
                Inl e \<Rightarrow> Inl e
              | Inr m \<Rightarrow> Inr (MakeResponse m (Some product) None None)))"

text \<open>
  POST /product. An exception that escapes leaves the session uncommitted; the state after
  it is not part of the result.
\<close>

definition storeProduct :: "db \<Rightarrow> product_body \<Rightarrow> exn + (returned \<times> db)" where
  "storeProduct d json_body = except_KeyError (\<lambda>e. (Exc e, d))
     (let product = \<lparr>o_id = None, o_name = b_name json_body, o_price = b_price json_body,
                     o_unit_measure_id = b_unit_measure_id json_body\<rparr>
      in case sql_insert d product of
           Inl e \<Rightarrow> Inl e
         | Inr (flushed, d') \<Rightarrow>
             (let product = ProductSchema_dump d' flushed
              in case message ''RecordCreated'' [(''resource'', ''product'')] of
                   Inl e \<Rightarrow> Inl e
                 | Inr m \<Rightarrow> Inr (MakeResponse m (Some product) None None, d')))"


text \<open>DELETE /product/{id}\<close>

definition destroyProduct :: "db \<Rightarrow> int \<Rightarrow> exn + (returned \<times> db)" where
  "destroyProduct d i = except_KeyError (\<lambda>e. (Exc e, d))
     (case first (where_id i (products_table d)) of
        None \<Rightarrow>
          (case message ''RecordNotFound'' [(''resource'', ''product''), (''id'', str_int i)] of
             Inl e \<Rightarrow> Inl e
           | Inr m \<Rightarrow> Inr (MakeResponse m None (Some 400) None, d))
      | Some product \<Rightarrow>
          (let d' = Query_delete d i
           in case message ''RecordDeleted'' [(''resource'', ''product''), (''id'', str_int i)] of
                Inl e \<Rightarrow> Inl e
              | Inr m \<Rightarrow> Inr (MakeResponse m None None None, d')))"

section \<open>A small database for concrete runs\<close>

definition example_db :: db where
  "example_db =
     \<lparr>unit_measures_table = [\<lparr>um_id = 1, um_name = ''kg''\<rparr>],
      products_table =
        [\<lparr>p_id = 1, p_name = ''Flour'', p_price = 5 / 2, p_unit_measure_id = 1\<rparr>,
         \<lparr>p_id = 2, p_name = ''Sugar'', p_price = 3, p_unit_measure_id = 1\<rparr>],
      products_id_seq = 3\<rparr>"

section \<open>Auxiliary facts\<close>

subsection \<open>The formatted messages\<close>

lemma message_RecordFound:
  "message ''RecordFound'' [(''resource'', r)] = Inr (''The '' @ r @ '' has been found successfully'')"
  by (simp add: message_def messages_def)

lemma message_RecordCreated:
  "message ''RecordCreated'' [(''resource'', r)] = Inr (''The '' @ r @ '' has been created successfully'')"
  by (simp add: message_def messages_def)

lemma message_RecordNotFound:
  "message ''RecordNotFound'' [(''resource'', r), (''id'', s)] =
     Inr (''The '' @ r @ '' with id '' @ [CHR 0x27] @ s @ [CHR 0x27] @ '' has not been found'')"
  by (simp add: message_def messages_def)


lemma message_RecordDeleted:
  "message ''RecordDeleted'' [(''resource'', r), (''id'', s)] =
     Inr (''The '' @ r @ '' with id '' @ [CHR 0x27] @ s @ [CHR 0x27] @ ''has been deleted successfully'')"
  by (simp add: message_def messages_def)

subsection \<open>Looking up the first matching row\<close>

lemma first_filter_None: "first (filter P xs) = None \<longleftrightarrow> (\<forall>x \<in> set xs. \<not> P x)"
  by (induction xs) (auto simp: first_def)

lemma first_filter_SomeD: "first (filter P xs) = Some x \<Longrightarrow> x \<in> set xs \<and> P x"
  by (induction xs) (auto simp: first_def split: if_splits)

lemma first_filter_ex: "\<exists>x \<in> set xs. P x \<Longrightarrow> \<exists>y. first (filter P xs) = Some y"
  by (cases "first (filter P xs)") (auto simp: first_filter_None)

lemma first_where_id_ex:
  assumes "i \<in> set (map p_id (products_table d))"
  shows "\<exists>p. first (where_id i (products_table d)) = Some p \<and> p \<in> set (products_table d) \<and> p_id p = i"
proof -
  from assms have "\<exists>x \<in> set (products_table d). p_id x = i" by auto
  then obtain p where p: "first (where_id i (products_table d)) = Some p"
    unfolding where_id_def using first_filter_ex [of "products_table d" "\<lambda>p. p_id p = i"] by blast
  then have "p \<in> set (products_table d) \<and> p_id p = i"
    unfolding where_id_def by (rule first_filter_SomeD)
  with p show ?thesis by blast
qed

lemma where_id_Query_delete: "where_id i (products_table (Query_delete d i)) = []"
  by (simp add: where_id_def Query_delete_def filter_empty_conv)

subsection \<open>The two branches of \<open>showProduct\<close> and \<open>destroyProduct\<close>\<close>

lemma showProduct_absent:
  assumes "i \<notin> set (map p_id (products_table d))"
  shows "showProduct d i =
     Inr (Response (JObj
       [(''status'', JStr ''BadRequest''),
        (''code'', JInt 400),
        (''message'', JStr (''The product with id '' @ [CHR 0x27] @ str_int i @ [CHR 0x27] @ '' has not been found'')),
        (''error'', JNull),
        (''data'', JNull)]))"
proof -
  from assms have "first (where_id i (products_table d)) = None"
    by (auto simp: where_id_def first_filter_None)
  then show ?thesis
    by (simp add: showProduct_def message_RecordNotFound MakeResponse_def except_KeyError_def)
qed

lemma showProduct_first:
  assumes "first (where_id i (products_table d)) = Some p"
  shows "showProduct d i =
     Inr (Response (JObj
       [(''status'', JStr ''OK''),
        (''code'', JInt 200),
        (''message'', JStr ''The product has been found successfully''),
        (''error'', JNull),
        (''data'', ProductSchema_dump d (loaded p))]))"
  using assms
  by (simp add: showProduct_def message_RecordFound MakeResponse_def except_KeyError_def)

lemma destroyProduct_absent:
  assumes "first (where_id i (products_table d)) = None"
  shows "destroyProduct d i =
     Inr (Response (JObj
       [(''status'', JStr ''BadRequest''),
        (''code'', JInt 400),
        (''message'', JStr (''The product with id '' @ [CHR 0x27] @ str_int i @ [CHR 0x27] @ '' has not been found'')),
        (''error'', JNull),
        (''data'', JNull)]), d)"
  using assms
  by (simp add: destroyProduct_def message_RecordNotFound MakeResponse_def except_KeyError_def)

lemma destroyProduct_present:
  assumes "first (where_id i (products_table d)) = Some p"
  shows "destroyProduct d i =
     Inr (Response (JObj
       [(''status'', JStr ''OK''),
        (''code'', JInt 200),
        (''message'', JStr (''The product with id '' @ [CHR 0x27] @ str_int i @ [CHR 0x27] @ ''has been deleted successfully'')),
        (''error'', JNull),
        (''data'', JNull)]), Query_delete d i)"
  using assms
  by (simp add: destroyProduct_def message_RecordDeleted MakeResponse_def except_KeyError_def)

subsection \<open>The loop and the page of \<open>indexProducts\<close>\<close>

lemma index_loop_eq:
  "index_loop d search page (acc, t) =
     (acc @ map (\<lambda>p. ProductSchema_dump d (loaded p)) page,
      if page = [] then t else int (length (name_like search (products_table d))))"
  by (induction page arbitrary: acc t) simp_all

lemma indexProducts_page:
  assumes "asint (case q ''offset'' of None \<Rightarrow> PyInt 0 | Some s \<Rightarrow> PyStr s) = Inr ofs"
    and "asint (case q ''limit'' of None \<Rightarrow> PyInt 10 | Some s \<Rightarrow> PyStr s) = Inr lmt"
    and "0 \<le> ofs" "ofs \<le> bigint_max" "0 \<le> lmt" "lmt \<le> bigint_max"
    and "page = take (nat lmt) (drop (nat ofs)
           (name_like (case q ''search'' of None \<Rightarrow> [] | Some s \<Rightarrow> s) (products_table d)))"
  shows "indexProducts d (Some q) =
     Inr (Response (JObj
       [(''status'', JStr ''OK''),
        (''code'', JInt 200),
        (''message'', JStr ''The products has been found successfully''),
        (''error'', JNull),
        (''data'', JList (map (\<lambda>p. ProductSchema_dump d (loaded p)) page)),
        (''total_records'',
           JInt (if page = [] then 0
                 else int (length (name_like (case q ''search'' of None \<Rightarrow> [] | Some s \<Rightarrow> s)
                        (products_table d)))))]))"
  using assms
  by (simp add: indexProducts_def offset_limit_def index_loop_eq message_RecordFound
        MakeResponsePaginate_def except_KeyError_def Let_def)

subsection \<open>Which exceptions the persistence layer raises\<close>





subsection \<open>What a handler returns is an envelope\<close>






subsection \<open>Accepted inserts and updates\<close>

lemma first_um_ex:
  assumes "u \<in> set (map um_id (unit_measures_table d))"
  shows "\<exists>m. first (filter (\<lambda>m. um_id m = u) (unit_measures_table d)) = Some m
           \<and> m \<in> set (unit_measures_table d) \<and> um_id m = u"
proof -
  from assms have "\<exists>x \<in> set (unit_measures_table d). um_id x = u" by auto
  then obtain m where m: "first (filter (\<lambda>m. um_id m = u) (unit_measures_table d)) = Some m"
    using first_filter_ex [of "unit_measures_table d" "\<lambda>m. um_id m = u"] by blast
  then have "m \<in> set (unit_measures_table d) \<and> um_id m = u"
    by (rule first_filter_SomeD)
  with m show ?thesis by blast
qed

lemma storeProduct_valid:
  assumes "b_name b = Some n" "b_price b = Some x" "b_unit_measure_id b = Some u"
    and "n \<notin> set (map p_name (products_table d))"
    and "first (filter (\<lambda>m. um_id m = u) (unit_measures_table d)) = Some m"
    and "products_id_seq d \<notin> set (map p_id (products_table d))"
  shows "storeProduct d b =
     Inr (Response (JObj
       [(''status'', JStr ''OK''),
        (''code'', JInt 200),
        (''message'', JStr ''The product has been created successfully''),
        (''error'', JNull),
        (''data'', JObj
           [(''id'', JInt (products_id_seq d)),
            (''name'', JStr n),
            (''price'', JNum x),
            (''unit_measure_id'', JInt u),
            (''unit_measures'', JObj [(''id'', JInt u), (''name'', JStr (um_name m))])])]),
      d\<lparr>products_table :=
           products_table d @
             [\<lparr>p_id = products_id_seq d, p_name = n, p_price = x, p_unit_measure_id = u\<rparr>],
         products_id_seq := products_id_seq d + 1\<rparr>)"
proof -
  from first_filter_SomeD [OF assms(5)]
  have m: "m \<in> set (unit_measures_table d)" "um_id m = u" by simp_all
  then have fk: "u \<in> um_id ` set (unit_measures_table d)" by auto
  have ins: "sql_insert d \<lparr>o_id = None, o_name = Some n, o_price = Some x, o_unit_measure_id = Some u\<rparr> =
     Inr (\<lparr>o_id = Some (products_id_seq d), o_name = Some n, o_price = Some x,
            o_unit_measure_id = Some u\<rparr>,
          d\<lparr>products_table :=
               products_table d @
                 [\<lparr>p_id = products_id_seq d, p_name = n, p_price = x, p_unit_measure_id = u\<rparr>],
             products_id_seq := products_id_seq d + 1\<rparr>)"
    using assms(4,6) fk by (simp add: sql_insert_def Let_def)
  show ?thesis
    using assms(1-3,5) m(2)
    by (simp add: storeProduct_def ins ProductSchema_dump_def UnitMeasureSchema_dump_def
          message_RecordCreated MakeResponse_def except_KeyError_def)
qed






section \<open>The response envelope builder\<close>

text \<open>
  C3. For every call of \<open>MakeResponse\<close> the body is an object with the keys status, code,
  message, error, data in this order; code is the status code given (200 when left out),
  message, error and data are the arguments given (null when left out), and status is
  "OK" for 200, "BadRequest" for 400 and "InternalServerError" for 500.
\<close>

theorem MakeResponse_envelope:
  "body_keys (MakeResponse m d sc e) = [''status'', ''code'', ''message'', ''error'', ''data'']
   \<and> body_get ''code'' (MakeResponse m d (Some c) e) = Some (JInt c)
   \<and> body_get ''code'' (MakeResponse m d None e) = Some (JInt 200)
   \<and> body_get ''message'' (MakeResponse m d sc e) = Some (JStr m)
   \<and> body_get ''error'' (MakeResponse m d sc (Some x)) = Some x
   \<and> body_get ''error'' (MakeResponse m d sc None) = Some JNull
   \<and> body_get ''data'' (MakeResponse m (Some v) sc e) = Some v
   \<and> body_get ''data'' (MakeResponse m None sc e) = Some JNull
   \<and> body_get ''status'' (MakeResponse m d (Some 200) e) = Some (JStr ''OK'')
   \<and> body_get ''status'' (MakeResponse m d None e) = Some (JStr ''OK'')
   \<and> body_get ''status'' (MakeResponse m d (Some 400) e) = Some (JStr ''BadRequest'')
   \<and> body_get ''status'' (MakeResponse m d (Some 500) e) = Some (JStr ''InternalServerError'')"
  by (simp add: MakeResponse_def Let_def)

text \<open>
  C10. For every status code other than 400 and 500 (201, 404 and 503 among them) the
  status field of \<open>MakeResponse\<close> is the string "OK".
\<close>

theorem MakeResponse_other_codes:
  "c \<noteq> 400 \<Longrightarrow> c \<noteq> 500 \<Longrightarrow> body_get ''status'' (MakeResponse m d (Some c) e) = Some (JStr ''OK'')"
  by (simp add: MakeResponse_def Let_def)

theorem MakeResponse_other_codes_witness:
  "body_get ''status'' (MakeResponse ''created'' None (Some 201) None) = Some (JStr ''OK'')
   \<and> body_get ''status'' (MakeResponse ''missing'' None (Some 404) None) = Some (JStr ''OK'')
   \<and> body_get ''status'' (MakeResponse ''down'' None (Some 503) None) = Some (JStr ''OK'')"
  using MakeResponse_other_codes [of 201 "''created''" None None]
        MakeResponse_other_codes [of 404 "''missing''" None None]
        MakeResponse_other_codes [of 503 "''down''" None None]
  by simp

section \<open>GET /product/{id}\<close>



section \<open>DELETE /product/{id}\<close>

text \<open>
  C7. For every id of a stored product, DELETE returns code 200 and leaves a state
  without that id, in which GET of the same id returns the 400 not-found envelope and a
  second DELETE returns the same 400 envelope and changes nothing.
\<close>

theorem destroy_then_not_found:
  assumes "i \<in> set (map p_id (products_table d))"
  shows "\<exists>r d'. destroyProduct d i = Inr (r, d')
           \<and> body_get ''code'' r = Some (JInt 200)
           \<and> i \<notin> set (map p_id (products_table d'))
           \<and> showProduct d' i =
               Inr (Response (JObj
                 [(''status'', JStr ''BadRequest''),
                  (''code'', JInt 400),
                  (''message'', JStr (''The product with id '' @ [CHR 0x27] @ str_int i @ [CHR 0x27] @ '' has not been found'')),
                  (''error'', JNull),
                  (''data'', JNull)]))
           \<and> destroyProduct d' i =
               Inr (Response (JObj
                 [(''status'', JStr ''BadRequest''),
                  (''code'', JInt 400),
                  (''message'', JStr (''The product with id '' @ [CHR 0x27] @ str_int i @ [CHR 0x27] @ '' has not been found'')),
                  (''error'', JNull),
                  (''data'', JNull)]), d')"
proof -
  from first_where_id_ex [OF assms] obtain p
    where p: "first (where_id i (products_table d)) = Some p" by blast
  let ?d' = "Query_delete d i"
  have gone: "i \<notin> set (map p_id (products_table ?d'))"
    by (auto simp: Query_delete_def)
  have none: "first (where_id i (products_table ?d')) = None"
    by (simp add: where_id_Query_delete first_def)
  show ?thesis
    using destroyProduct_present [OF p] gone showProduct_absent [OF gone]
      destroyProduct_absent [OF none]
    by simp
qed

theorem destroy_then_not_found_witness:
  "\<exists>r d'. destroyProduct example_db 1 = Inr (r, d')
     \<and> body_get ''code'' r = Some (JInt 200)
     \<and> 1 \<notin> set (map p_id (products_table d'))
     \<and> showProduct d' 1 =
         Inr (Response (JObj
           [(''status'', JStr ''BadRequest''),
            (''code'', JInt 400),
            (''message'', JStr ''The product with id '1' has not been found''),
            (''error'', JNull),
            (''data'', JNull)]))
     \<and> destroyProduct d' 1 =
         Inr (Response (JObj
           [(''status'', JStr ''BadRequest''),
            (''code'', JInt 400),
            (''message'', JStr ''The product with id '1' has not been found''),
            (''error'', JNull),
            (''data'', JNull)]), d')"
proof -
  have h: "1 \<in> set (map p_id (products_table example_db))"
    by (simp add: example_db_def)
  have s: "str_int 1 = ''1''"
    by code_simp
  show ?thesis
    using destroy_then_not_found [OF h] by (simp add: s)
qed

text \<open>
  C5, at a concrete request. DELETE of the stored product 1 removes its row and returns
  code 200 with null data; the message is the \<open>RecordDeleted\<close> template as line 62 has
  it, with no space between the quoted id and "has".
\<close>

theorem destroyProduct_message_example:
  "destroyProduct example_db 1 =
     Inr (Response (JObj
       [(''status'', JStr ''OK''),
        (''code'', JInt 200),
        (''message'', JStr ''The product with id '1'has been deleted successfully''),
        (''error'', JNull),
        (''data'', JNull)]),
      \<lparr>unit_measures_table = [\<lparr>um_id = 1, um_name = ''kg''\<rparr>],
       products_table =
         [\<lparr>p_id = 2, p_name = ''Sugar'', p_price = 3, p_unit_measure_id = 1\<rparr>],
       products_id_seq = 3\<rparr>)"
proof -
  have s: "str_int 1 = ''1''"
    by code_simp
  show ?thesis
    by (simp add: destroyProduct_def example_db_def where_id_def first_def
          message_RecordDeleted MakeResponse_def except_KeyError_def Query_delete_def s)
qed

section \<open>GET /products\<close>

text \<open>
  C1, at a concrete request. The example database stores two products, both matching the
  empty search string. With offset 2 the page is empty, the loop body never runs, and
  \<open>total_records\<close> stays at its initial 0 instead of the 2 matching products.
\<close>

theorem indexProducts_empty_page_example:
  "length (name_like [] (products_table example_db)) = 2
   \<and> indexProducts example_db (Some [''offset'' \<mapsto> ''2'']) =
       Inr (Response (JObj
         [(''status'', JStr ''OK''),
          (''code'', JInt 200),
          (''message'', JStr ''The products has been found successfully''),
          (''error'', JNull),
          (''data'', JList []),
          (''total_records'', JInt 0)]))"
proof -
  have n: "name_like [] (products_table example_db) = products_table example_db"
    by (simp add: name_like_def example_db_def)
  have a: "int_of_str ''2'' = Inr 2"
    by code_simp
  have "indexProducts example_db (Some [''offset'' \<mapsto> ''2'']) =
       Inr (Response (JObj
         [(''status'', JStr ''OK''),
          (''code'', JInt 200),
          (''message'', JStr ''The products has been found successfully''),
          (''error'', JNull),
          (''data'', JList []),
          (''total_records'', JInt 0)]))"
    using indexProducts_page [of "[''offset'' \<mapsto> ''2'']" 2 10 "[]" example_db]
    by (simp add: a n bigint_max_def) (simp add: example_db_def)
  with n show ?thesis by (simp add: example_db_def)
qed

text \<open>
  Pagination where the loop runs. For a request with a query string whose offset and
  limit, where given, are decimal integers from 0 to \<open>bigint_max\<close>: the data list has
  min(limit, N - offset) entries (0 when offset exceeds N), N being the number of products
  whose name matches the search pattern, and a non-empty page comes with
  \<open>total_records\<close> = N.
\<close>

theorem indexProducts_pagination:
  assumes "(q ''offset'' = None \<and> ofs = 0) \<or> (\<exists>t. q ''offset'' = Some t \<and> int_of_str t = Inr ofs)"
    and "(q ''limit'' = None \<and> lmt = 10) \<or> (\<exists>t. q ''limit'' = Some t \<and> int_of_str t = Inr lmt)"
    and "(q ''search'' = None \<and> search = []) \<or> q ''search'' = Some search"
    and "0 \<le> ofs" "ofs \<le> bigint_max" "0 \<le> lmt" "lmt \<le> bigint_max"
  shows "\<exists>rows total. indexProducts d (Some q) =
       Inr (Response (JObj
         [(''status'', JStr ''OK''),
          (''code'', JInt 200),
          (''message'', JStr ''The products has been found successfully''),
          (''error'', JNull),
          (''data'', JList rows),
          (''total_records'', JInt total)]))
     \<and> length rows = min (nat lmt) (length (name_like search (products_table d)) - nat ofs)
     \<and> (rows \<noteq> [] \<longrightarrow> total = int (length (name_like search (products_table d))))"
proof -
  have o: "asint (case q ''offset'' of None \<Rightarrow> PyInt 0 | Some s \<Rightarrow> PyStr s) = Inr ofs"
    using assms(1) by auto
  have l: "asint (case q ''limit'' of None \<Rightarrow> PyInt 10 | Some s \<Rightarrow> PyStr s) = Inr lmt"
    using assms(2) by auto
  have s: "(case q ''search'' of None \<Rightarrow> [] | Some s \<Rightarrow> s) = search"
    using assms(3) by auto
  let ?page = "take (nat lmt) (drop (nat ofs) (name_like search (products_table d)))"
  have len: "length (map (\<lambda>p. ProductSchema_dump d (loaded p)) ?page) =
      min (nat lmt) (length (name_like search (products_table d)) - nat ofs)"
    by (simp add: min.commute)
  have ne: "map (\<lambda>p. ProductSchema_dump d (loaded p)) ?page \<noteq> [] \<longrightarrow>
      (if ?page = [] then 0 else int (length (name_like search (products_table d)))) =
      int (length (name_like search (products_table d)))"
    by simp
  from indexProducts_page [OF o l assms(4-7) refl, of d]
  have "indexProducts d (Some q) =
       Inr (Response (JObj
         [(''status'', JStr ''OK''),
          (''code'', JInt 200),
          (''message'', JStr ''The products has been found successfully''),
          (''error'', JNull),
          (''data'', JList (map (\<lambda>p. ProductSchema_dump d (loaded p)) ?page)),
          (''total_records'',
             JInt (if ?page = [] then 0
                   else int (length (name_like search (products_table d)))))]))"
    by (simp add: s)
  with len ne show ?thesis
    by blast
qed

theorem indexProducts_pagination_witness:
  "\<exists>rows total. indexProducts example_db (Some [''offset'' \<mapsto> ''1'', ''limit'' \<mapsto> ''5'']) =
       Inr (Response (JObj
         [(''status'', JStr ''OK''),
          (''code'', JInt 200),
          (''message'', JStr ''The products has been found successfully''),
          (''error'', JNull),
          (''data'', JList rows),
          (''total_records'', JInt total)]))
     \<and> length rows = 1 \<and> total = 2"
proof -
  have a: "int_of_str ''1'' = Inr 1" "int_of_str ''5'' = Inr 5"
    by code_simp+
  have n: "name_like [] (products_table example_db) = products_table example_db"
    by (simp add: name_like_def example_db_def)
  have len: "length (products_table example_db) = 2"
    by (simp add: example_db_def)
  from indexProducts_pagination
    [of "[''offset'' \<mapsto> ''1'', ''limit'' \<mapsto> ''5'']" 1 5 "[]" example_db]
  obtain rows total where r: "indexProducts example_db (Some [''offset'' \<mapsto> ''1'', ''limit'' \<mapsto> ''5'']) =
       Inr (Response (JObj
         [(''status'', JStr ''OK''),
          (''code'', JInt 200),
          (''message'', JStr ''The products has been found successfully''),
          (''error'', JNull),
          (''data'', JList rows),
          (''total_records'', JInt total)]))"
    "length rows = 1" "rows \<noteq> [] \<longrightarrow> total = 2"
    by (auto simp: a n len bigint_max_def)
  from r(2) have "rows \<noteq> []" by auto
  with r show ?thesis by blast
qed

text \<open>
  C9 as stated fails: a negative offset reaches the database, which rejects it, and the
  exception escapes the handler.
\<close>

theorem indexProducts_negative_offset:
  "indexProducts example_db (Some [''offset'' \<mapsto> ''-1'']) = Inl DataError"
proof -
  have a: "int_of_str ''-1'' = Inr (- 1)"
    by code_simp
  show ?thesis
    by (simp add: indexProducts_def a offset_limit_def except_KeyError_def)
qed

text \<open>
  C9, amended. For every GET /products request with a query string in which offset and
  limit, where given, are decimal integers from 0 to \<open>bigint_max\<close>: absent parameters
  take the defaults 0, 10 and the empty string, and the handler returns code 200 with the
  message "The products has been found successfully" and the paginated envelope, whose
  data is the page of matching products, also when that page is empty.
\<close>

theorem indexProducts_defaults:
  assumes "(q ''offset'' = None \<and> ofs = 0) \<or> (\<exists>t. q ''offset'' = Some t \<and> int_of_str t = Inr ofs)"
    and "(q ''limit'' = None \<and> lmt = 10) \<or> (\<exists>t. q ''limit'' = Some t \<and> int_of_str t = Inr lmt)"
    and "(q ''search'' = None \<and> search = []) \<or> q ''search'' = Some search"
    and "0 \<le> ofs" "ofs \<le> bigint_max" "0 \<le> lmt" "lmt \<le> bigint_max"
  shows "\<exists>total. indexProducts d (Some q) =
     Inr (Response (JObj
       [(''status'', JStr ''OK''),
        (''code'', JInt 200),
        (''message'', JStr ''The products has been found successfully''),
        (''error'', JNull),
        (''data'', JList (map (\<lambda>p. ProductSchema_dump d (loaded p))
           (take (nat lmt) (drop (nat ofs) (name_like search (products_table d)))))),
        (''total_records'', JInt total)]))"
proof -
  have o: "asint (case q ''offset'' of None \<Rightarrow> PyInt 0 | Some s \<Rightarrow> PyStr s) = Inr ofs"
    using assms(1) by auto
  have l: "asint (case q ''limit'' of None \<Rightarrow> PyInt 10 | Some s \<Rightarrow> PyStr s) = Inr lmt"
    using assms(2) by auto
  have s: "(case q ''search'' of None \<Rightarrow> [] | Some s \<Rightarrow> s) = search"
    using assms(3) by auto
  show ?thesis
    using indexProducts_page [OF o l assms(4-7) refl, of d] by (simp add: s)
qed

theorem indexProducts_defaults_witness:
  "(\<exists>total. indexProducts example_db (Some [''page'' \<mapsto> ''1'']) =
     Inr (Response (JObj
       [(''status'', JStr ''OK''),
        (''code'', JInt 200),
        (''message'', JStr ''The products has been found successfully''),
        (''error'', JNull),
        (''data'', JList
           [JObj [(''id'', JInt 1), (''name'', JStr ''Flour''), (''price'', JNum (5 / 2)),
                  (''unit_measure_id'', JInt 1),
                  (''unit_measures'', JObj [(''id'', JInt 1), (''name'', JStr ''kg'')])],
            JObj [(''id'', JInt 2), (''name'', JStr ''Sugar''), (''price'', JNum 3),
                  (''unit_measure_id'', JInt 1),
                  (''unit_measures'', JObj [(''id'', JInt 1), (''name'', JStr ''kg'')])]]),
        (''total_records'', JInt total)])))
   \<and> (\<exists>total. indexProducts example_db
         (Some [''offset'' \<mapsto> ''1'', ''limit'' \<mapsto> ''5'', ''search'' \<mapsto> ''Salt'']) =
     Inr (Response (JObj
       [(''status'', JStr ''OK''),
        (''code'', JInt 200),
        (''message'', JStr ''The products has been found successfully''),
        (''error'', JNull),
        (''data'', JList []),
        (''total_records'', JInt total)])))"
proof -
  have a: "int_of_str ''1'' = Inr 1" "int_of_str ''5'' = Inr 5"
    by code_simp+
  have n: "name_like [] (products_table example_db) = products_table example_db"
    "name_like ''Salt'' (products_table example_db) = []"
    by (simp_all add: name_like_def example_db_def)
  have v: "map (\<lambda>p. ProductSchema_dump example_db (loaded p)) (products_table example_db) =
           [JObj [(''id'', JInt 1), (''name'', JStr ''Flour''), (''price'', JNum (5 / 2)),
                  (''unit_measure_id'', JInt 1),
                  (''unit_measures'', JObj [(''id'', JInt 1), (''name'', JStr ''kg'')])],
            JObj [(''id'', JInt 2), (''name'', JStr ''Sugar''), (''price'', JNum 3),
                  (''unit_measure_id'', JInt 1),
                  (''unit_measures'', JObj [(''id'', JInt 1), (''name'', JStr ''kg'')])]]"
    by (simp add: example_db_def ProductSchema_dump_def loaded_def first_def
          UnitMeasureSchema_dump_def)
  have t: "take 10 (products_table example_db) = products_table example_db"
    by (simp add: example_db_def)
  show ?thesis
    using indexProducts_defaults [of "[''page'' \<mapsto> ''1'']" 0 10 "[]" example_db]
      indexProducts_defaults
        [of "[''offset'' \<mapsto> ''1'', ''limit'' \<mapsto> ''5'', ''search'' \<mapsto> ''Salt'']" 1 5 "''Salt''"
          example_db]
    by (simp add: a n v t bigint_max_def)
qed

section \<open>POST /product\<close>



text \<open>
  After such a POST, GET of the generated id returns the same record.
\<close>

theorem showProduct_after_store:
  assumes "b_name b = Some n" "b_price b = Some x" "b_unit_measure_id b = Some u"
    and "n \<notin> set (map p_name (products_table d))"
    and "u \<in> set (map um_id (unit_measures_table d))"
    and "products_id_seq d \<notin> set (map p_id (products_table d))"
  shows "\<exists>m d'. m \<in> set (unit_measures_table d) \<and> um_id m = u
     \<and> storeProduct d b =
         Inr (Response (JObj
           [(''status'', JStr ''OK''),
            (''code'', JInt 200),
            (''message'', JStr ''The product has been created successfully''),
            (''error'', JNull),
            (''data'', JObj
               [(''id'', JInt (products_id_seq d)),
                (''name'', JStr n),
                (''price'', JNum x),
                (''unit_measure_id'', JInt u),
                (''unit_measures'', JObj [(''id'', JInt u), (''name'', JStr (um_name m))])])]),
          d')
     \<and> showProduct d' (products_id_seq d) =
         Inr (Response (JObj
           [(''status'', JStr ''OK''),
            (''code'', JInt 200),
            (''message'', JStr ''The product has been found successfully''),
            (''error'', JNull),
            (''data'', JObj
               [(''id'', JInt (products_id_seq d)),
                (''name'', JStr n),
                (''price'', JNum x),
                (''unit_measure_id'', JInt u),
                (''unit_measures'', JObj [(''id'', JInt u), (''name'', JStr (um_name m))])])]))"
proof -
  let ?new = "\<lparr>p_id = products_id_seq d, p_name = n, p_price = x, p_unit_measure_id = u\<rparr>"
  let ?d' = "d\<lparr>products_table := products_table d @ [?new],
               products_id_seq := products_id_seq d + 1\<rparr>"
  from first_um_ex [OF assms(5)] obtain m
    where m: "first (filter (\<lambda>m. um_id m = u) (unit_measures_table d)) = Some m"
      "um_id m = u" "m \<in> set (unit_measures_table d)"
    by blast
  have "filter (\<lambda>p. p_id p = products_id_seq d) (products_table d) = []"
    using assms(6) by (force simp: filter_empty_conv image_iff)
  then have f: "first (where_id (products_id_seq d) (products_table ?d')) = Some ?new"
    by (simp add: where_id_def first_def)
  have "showProduct ?d' (products_id_seq d) =
         Inr (Response (JObj
           [(''status'', JStr ''OK''),
            (''code'', JInt 200),
            (''message'', JStr ''The product has been found successfully''),
            (''error'', JNull),
            (''data'', JObj
               [(''id'', JInt (products_id_seq d)),
                (''name'', JStr n),
                (''price'', JNum x),
                (''unit_measure_id'', JInt u),
                (''unit_measures'', JObj [(''id'', JInt u), (''name'', JStr (um_name m))])])]))"
    using showProduct_first [OF f] m(1,2)
    by (simp add: ProductSchema_dump_def loaded_def UnitMeasureSchema_dump_def)
  with storeProduct_valid [OF assms(1-4) m(1) assms(6)] m(2,3) show ?thesis
    by blast
qed

theorem showProduct_after_store_witness:
  "\<exists>d'. storeProduct example_db
        \<lparr>b_name = Some ''Salt'', b_price = Some 4, b_unit_measure_id = Some 1\<rparr> =
         Inr (Response (JObj
           [(''status'', JStr ''OK''),
            (''code'', JInt 200),
            (''message'', JStr ''The product has been created successfully''),
            (''error'', JNull),
            (''data'', JObj
               [(''id'', JInt 3),
                (''name'', JStr ''Salt''),
                (''price'', JNum 4),
                (''unit_measure_id'', JInt 1),
                (''unit_measures'', JObj [(''id'', JInt 1), (''name'', JStr ''kg'')])])]),
          d')
     \<and> showProduct d' 3 =
         Inr (Response (JObj
           [(''status'', JStr ''OK''),
            (''code'', JInt 200),
            (''message'', JStr ''The product has been found successfully''),
            (''error'', JNull),
            (''data'', JObj
               [(''id'', JInt 3),
                (''name'', JStr ''Salt''),
                (''price'', JNum 4),
                (''unit_measure_id'', JInt 1),
                (''unit_measures'', JObj [(''id'', JInt 1), (''name'', JStr ''kg'')])])]))"
proof -
  have h4: "''Salt'' \<notin> set (map p_name (products_table example_db))"
    by (simp add: example_db_def)
  have h5: "1 \<in> set (map um_id (unit_measures_table example_db))"
    by (simp add: example_db_def)
  have h6: "products_id_seq example_db \<notin> set (map p_id (products_table example_db))"
    by (simp add: example_db_def)
  have ums: "set (unit_measures_table example_db) = {\<lparr>um_id = 1, um_name = ''kg''\<rparr>}"
    by (simp add: example_db_def)
  have q: "products_id_seq example_db = 3"
    by (simp add: example_db_def)
  from showProduct_after_store
    [of "\<lparr>b_name = Some ''Salt'', b_price = Some 4, b_unit_measure_id = Some 1\<rparr>"
      "''Salt''" 4 1 example_db, OF _ _ _ h4 h5 h6]
  show ?thesis
    unfolding q ums by auto
qed

section \<open>PUT /product/{id}\<close>




section \<open>The shape of every returned value\<close>




end
